theory Spec2Isabelle
  imports Main
begin

section \<open>Python values, exceptions and string operations\<close>

text \<open>
  The values that \<^verbatim>\<open>request.get_json(silent=True)\<close> and \<^verbatim>\<open>response.json()\<close> hand to
  the code: \<^verbatim>\<open>None\<close>, booleans, integers, strings, lists and dictionaries. A dictionary
  is an association list looked up with \<open>map_of\<close>. JSON numbers with a fraction are
  left out: the code treats them as it treats integers (truthy unless zero, not a
  container, not a string).
\<close>

datatype pyval =
    PyNone
  | PyBool bool
  | PyInt int
  | PyStr string
  | PyList "pyval list"
  | PyDict "(string \<times> pyval) list"

text \<open>
  The message of the two bare \<^verbatim>\<open>Exception\<close>s that \<^verbatim>\<open>make_iap_request\<close> raises. The
  second is the format string \<^verbatim>\<open>'Bad response from application: {!r} / {!r} / {!r}'\<close>
  together with its three arguments (status code, headers, body), kept unrendered.
\<close>

datatype message =
    Text string
  | BadResponse int "(string \<times> string) list" string

text \<open>
  The exceptions of the source. \<open>OperationalError\<close> carries \<^verbatim>\<open>e.orig.pgcode\<close>;
  \<open>External\<close> is any other exception raised by a collaborator (database driver,
  HTTP library, credential library), named by its class.
\<close>

datatype exn =
    AttributeError
  | KeyError string
  | TypeError
  | IntegrityError
  | OperationalError "string option"
  | Exception message
  | External string

text \<open>\<^verbatim>\<open>str.lower\<close> on the ASCII letters; no other character lowers to a letter of \<^verbatim>\<open>"false"\<close>.\<close>

definition lower_char :: "char \<Rightarrow> char" where
  "lower_char c =
     (case map_of (zip ''ABCDEFGHIJKLMNOPQRSTUVWXYZ'' ''abcdefghijklmnopqrstuvwxyz'') c of
        None \<Rightarrow> c
      | Some l \<Rightarrow> l)"

definition lower :: "string \<Rightarrow> string" where
  "lower s = map lower_char s"

text \<open>\<^verbatim>\<open>s.find(sub)\<close>: the lowest index at which \<open>sub\<close> occurs in \<open>s\<close>, or \<open>-1\<close>.\<close>

fun str_find_from :: "string \<Rightarrow> string \<Rightarrow> int \<Rightarrow> int" where
  "str_find_from [] sub i = (if sub = [] then i else - 1)"
| "str_find_from (c # cs) sub i =
     (if take (length sub) (c # cs) = sub then i else str_find_from cs sub (i + 1))"

definition str_find :: "string \<Rightarrow> string \<Rightarrow> int" where
  "str_find s sub = str_find_from s sub 0"

text \<open>\<^verbatim>\<open>s.rfind(sub)\<close>: the highest index at which \<open>sub\<close> occurs in \<open>s\<close>, or \<open>-1\<close>.\<close>

fun str_rfind_from :: "string \<Rightarrow> string \<Rightarrow> int \<Rightarrow> int \<Rightarrow> int" where
  "str_rfind_from [] sub i best = (if sub = [] then i else best)"
| "str_rfind_from (c # cs) sub i best =
     str_rfind_from cs sub (i + 1) (if take (length sub) (c # cs) = sub then i else best)"

definition str_rfind :: "string \<Rightarrow> string \<Rightarrow> int" where
  "str_rfind s sub = str_rfind_from s sub 0 (- 1)"

text \<open>\<^verbatim>\<open>s[a:b]\<close>: a negative bound counts from the end, both bounds are clamped.\<close>

definition py_slice :: "string \<Rightarrow> int \<Rightarrow> int \<Rightarrow> string" where
  "py_slice s a b =
     (let n = int (length s);
          lo = (if a < 0 then max 0 (n + a) else min a n);
          hi = (if b < 0 then max 0 (n + b) else min b n)
      in take (nat (hi - lo)) (drop (nat lo) s))"

text \<open>Truth value of a Python value, as \<^verbatim>\<open>if request_json and ...\<close> tests it.\<close>

fun truthy :: "pyval \<Rightarrow> bool" where
  "truthy PyNone = False"
| "truthy (PyBool b) = b"
| "truthy (PyInt i) = (i \<noteq> 0)"
| "truthy (PyStr s) = (s \<noteq> [])"
| "truthy (PyList xs) = (xs \<noteq> [])"
| "truthy (PyDict kvs) = (kvs \<noteq> [])"

text \<open>\<^verbatim>\<open>k in v\<close> for a string \<open>k\<close>: key of a dictionary, element of a list, substring
  of a string; any other value is not iterable.\<close>

fun py_contains :: "pyval \<Rightarrow> string \<Rightarrow> exn + bool" where
  "py_contains (PyDict kvs) k = Inr (map_of kvs k \<noteq> None)"
| "py_contains (PyList xs) k = Inr (PyStr k \<in> set xs)"
| "py_contains (PyStr s) k = Inr (str_find s k \<noteq> - 1)"
| "py_contains PyNone k = Inl TypeError"
| "py_contains (PyBool b) k = Inl TypeError"
| "py_contains (PyInt i) k = Inl TypeError"

text \<open>\<^verbatim>\<open>v[k]\<close> for a string \<open>k\<close>: only a dictionary accepts a string subscript.\<close>

fun py_getitem :: "pyval \<Rightarrow> string \<Rightarrow> exn + pyval" where
  "py_getitem (PyDict kvs) k =
     (case map_of kvs k of None \<Rightarrow> Inl (KeyError k) | Some v \<Rightarrow> Inr v)"
| "py_getitem (PyList xs) k = Inl TypeError"
| "py_getitem (PyStr s) k = Inl TypeError"
| "py_getitem PyNone k = Inl TypeError"
| "py_getitem (PyBool b) k = Inl TypeError"
| "py_getitem (PyInt i) k = Inl TypeError"

text \<open>\<^verbatim>\<open>v.get(k, default)\<close>: a method of dictionaries only.\<close>

fun py_get :: "pyval \<Rightarrow> string \<Rightarrow> pyval \<Rightarrow> exn + pyval" where
  "py_get (PyDict kvs) k d = Inr (case map_of kvs k of None \<Rightarrow> d | Some v \<Rightarrow> v)"
| "py_get (PyList xs) k d = Inl AttributeError"
| "py_get (PyStr s) k d = Inl AttributeError"
| "py_get PyNone k d = Inl AttributeError"
| "py_get (PyBool b) k d = Inl AttributeError"
| "py_get (PyInt i) k d = Inl AttributeError"

text \<open>An environment variable inside an f-string: \<^verbatim>\<open>None\<close> is rendered as \<^verbatim>\<open>None\<close>.\<close>

definition fmt_env :: "string option \<Rightarrow> string" where
  "fmt_env v = (case v of None \<Rightarrow> ''None'' | Some s \<Rightarrow> s)"

section \<open>The world outside the function\<close>

text \<open>
  Operations on the database, in the order of a session's life: \<open>GetEngine\<close> is
  \<^verbatim>\<open>get_engine()\<close> (four secrets, \<^verbatim>\<open>create_engine\<close>, \<^verbatim>\<open>create_all\<close>), \<open>Count\<close> the
  count query of \<^verbatim>\<open>message_id_exists\<close>, \<open>LockTable\<close> the
  \<^verbatim>\<open>LOCK TABLE pubsub_history IN ACCESS EXCLUSIVE MODE NOWAIT\<close> statement and
  \<open>AddCommit\<close> the \<^verbatim>\<open>session.add(row); session.commit()\<close> pair.
\<close>

datatype db_op =
    GetEngine
  | Count pyval
  | Commit
  | Rollback
  | Close
  | LockTable
  | AddCommit pyval

record http_request =
  http_method :: string
  url :: pyval
  headers :: "(string \<times> string) list"
  kwargs :: "(string \<times> pyval) list"
  authorized :: bool

record http_response =
  status_code :: int
  resp_headers :: "(string \<times> string) list"
  body_text :: string
  body_json :: "exn + pyval"

text \<open>What an invocation does to the outside, in order; a database operation is
  recorded with its outcome.\<close>

datatype event =
    Db db_op "exn option"
  | GoogleAuthDefault "exn option"
  | FetchIdToken string
  | Http http_request

text \<open>
  \<open>rows\<close> is the \<^verbatim>\<open>message_id\<close> column of table \<^verbatim>\<open>pubsub_history\<close>, in insertion order
  (the surrogate \<^verbatim>\<open>id\<close> and the \<^verbatim>\<open>timestamp\<close> are assigned by the server and never read).
\<close>

record world =
  rows :: "string list"
  trace :: "event list"

text \<open>
  The process environment (read with \<^verbatim>\<open>os.environ.get\<close>) and the answers of the
  collaborators. Every answer may depend on what happened before (the trace).
  \<open>coerce_text\<close> is what the server stores in the \<^verbatim>\<open>Text\<close> column for a value that is
  neither a string nor \<^verbatim>\<open>None\<close>; \<open>str_other\<close> is \<^verbatim>\<open>str()\<close> on a value that is not a
  string; \<open>parse_client_id\<close> is
  \<^verbatim>\<open>parse_qs(urlparse(location).query)['client_id'][0]\<close>.
\<close>

record env =
  ENABLED :: "string option"
  GOOGLE_PROJECT_NAME :: "string option"
  COMPOSER_ENVIRONMENT_NAME :: "string option"
  DAG_NAME :: "string option"
  IAP_TIMEOUT :: int
  db_fault :: "event list \<Rightarrow> db_op \<Rightarrow> exn option"
  coerce_text :: "pyval \<Rightarrow> string"
  str_other :: "pyval \<Rightarrow> string"
  google_auth_default :: "event list \<Rightarrow> exn option"
  http :: "event list \<Rightarrow> http_request \<Rightarrow> exn + http_response"
  fetch_id_token :: "event list \<Rightarrow> string \<Rightarrow> exn + string"
  parse_client_id :: "string \<Rightarrow> exn + string"

definition py_str :: "env \<Rightarrow> pyval \<Rightarrow> string" where
  "py_str env v = (case v of PyStr s \<Rightarrow> s | _ \<Rightarrow> str_other env v)"

definition db_call :: "env \<Rightarrow> db_op \<Rightarrow> world \<Rightarrow> exn option \<times> world" where
  "db_call env op w =
     (let r = db_fault env (trace w) op in (r, w\<lparr>trace := trace w @ [Db op r]\<rparr>))"

definition http_call :: "env \<Rightarrow> http_request \<Rightarrow> world \<Rightarrow> (exn + http_response) \<times> world" where
  "http_call env req w = (http env (trace w) req, w\<lparr>trace := trace w @ [Http req]\<rparr>)"

section \<open>Resolving the endpoint\<close>

definition get_airflow_uri :: "env \<Rightarrow> world \<Rightarrow> (exn + pyval) \<times> world" where
  "get_airflow_uri env w =
     (let environment_url =
            ''https://composer.googleapis.com/v1beta1/'' @
            ''projects/'' @ fmt_env (GOOGLE_PROJECT_NAME env) @ ''/'' @
            ''locations/'' @ ''us-central1'' @ ''/'' @
            ''environments/'' @ fmt_env (COMPOSER_ENVIRONMENT_NAME env);
          a = google_auth_default env (trace w);
          w1 = w\<lparr>trace := trace w @ [GoogleAuthDefault a]\<rparr>
      in case a of
           Some e \<Rightarrow> (Inl e, w1)
         | None \<Rightarrow>
            (case http_call env \<lparr>http_method = ''GET'', url = PyStr environment_url, headers = [],
                                 kwargs = [], authorized = True\<rparr> w1 of
               (Inl e, w2) \<Rightarrow> (Inl e, w2)
             | (Inr composer_response, w2) \<Rightarrow>
                (case body_json composer_response of
                   Inl e \<Rightarrow> (Inl e, w2)
                 | Inr environment_data \<Rightarrow>
                    (case py_getitem environment_data ''config'' of
                       Inl e \<Rightarrow> (Inl e, w2)
                     | Inr config \<Rightarrow>
                        (case py_getitem config ''airflowUri'' of
                           Inl e \<Rightarrow> (Inl e, w2)
                         | Inr airflow_uri \<Rightarrow> (Inr airflow_uri, w2))))))"

definition get_airflow_webserver_id :: "env \<Rightarrow> world \<Rightarrow> (exn + string) \<times> world" where
  "get_airflow_webserver_id env w =
     (case get_airflow_uri env w of
        (Inl e, w1) \<Rightarrow> (Inl e, w1)
      | (Inr airflow_uri, w1) \<Rightarrow>
         (case airflow_uri of
            PyStr s \<Rightarrow>
              (Inr (py_slice s (str_find s ''https://'' + int (length ''https://''))
                               (str_rfind s ''.appspot.com'')), w1)
          | _ \<Rightarrow> (Inl AttributeError, w1)))"

text \<open>\<^verbatim>\<open>headers[k]\<close> on the response's case-insensitive header dictionary.\<close>

definition header_lookup :: "(string \<times> string) list \<Rightarrow> string \<Rightarrow> exn + string" where
  "header_lookup hs k =
     (case map_of (map (\<lambda>(h, v). (lower h, v)) hs) (lower k) of
        None \<Rightarrow> Inl (KeyError k)
      | Some v \<Rightarrow> Inr v)"

definition get_client_id :: "env \<Rightarrow> world \<Rightarrow> (exn + string) \<times> world" where
  "get_client_id env w =
     (case get_airflow_uri env w of
        (Inl e, w1) \<Rightarrow> (Inl e, w1)
      | (Inr airflow_uri, w1) \<Rightarrow>
         (case http_call env \<lparr>http_method = ''GET'', url = airflow_uri, headers = [],
                              kwargs = [(''allow_redirects'', PyBool False)],
                              authorized = False\<rparr> w1 of
            (Inl e, w2) \<Rightarrow> (Inl e, w2)
          | (Inr redirect_response, w2) \<Rightarrow>
             (case header_lookup (resp_headers redirect_response) ''location'' of
                Inl e \<Rightarrow> (Inl e, w2)
              | Inr redirect_location \<Rightarrow> (parse_client_id env redirect_location, w2))))"

section \<open>The downstream call\<close>

definition make_iap_request ::
  "env \<Rightarrow> pyval \<Rightarrow> string \<Rightarrow> string \<Rightarrow> (string \<times> pyval) list \<Rightarrow> world \<Rightarrow> (exn + string) \<times> world"
where
  "make_iap_request env url' client_id method' kwargs0 w =
     (let kwargs1 = (if map_of kwargs0 ''timeout'' = None
                     then kwargs0 @ [(''timeout'', PyInt 90)] else kwargs0);
          t = fetch_id_token env (trace w) client_id;
          w1 = w\<lparr>trace := trace w @ [FetchIdToken client_id]\<rparr>
      in case t of
           Inl e \<Rightarrow> (Inl e, w1)
         | Inr google_open_id_connect_token \<Rightarrow>
            if map_of kwargs1 ''headers'' \<noteq> None then (Inl TypeError, w1)
            else
              (case http_call env
                      \<lparr>http_method = method', url = url',
                       headers = [(''Authorization'', ''Bearer '' @ google_open_id_connect_token)],
                       kwargs = kwargs1, authorized = False\<rparr> w1 of
                 (Inl e, w2) \<Rightarrow> (Inl e, w2)
               | (Inr resp, w2) \<Rightarrow>
                  if status_code resp = 403 then
                    (Inl (Exception (Text (''Service account does not have permission to '' @
                                           ''access the IAP-protected application.''))), w2)
                  else if status_code resp \<noteq> 200 then
                    (Inl (Exception (BadResponse (status_code resp) (resp_headers resp)
                                                 (body_text resp))), w2)
                  else (Inr (body_text resp), w2)))"

section \<open>The dedup table\<close>

definition count_rows :: "pyval \<Rightarrow> string list \<Rightarrow> nat" where
  "count_rows message_id rs = length (filter (\<lambda>r. PyStr r = message_id) rs)"

text \<open>
  The context manager \<^verbatim>\<open>session_scope\<close> around a body: the engine is built before
  the \<^verbatim>\<open>try\<close>; the body and the commit are inside it; a failure there rolls back and
  re-raises; the session is closed on every path. An exception raised by the
  rollback or by the close replaces the one in flight, as in Python.
\<close>

definition session_scope ::
  "env \<Rightarrow> (world \<Rightarrow> (exn + 'a) \<times> world) \<Rightarrow> world \<Rightarrow> (exn + 'a) \<times> world"
where
  "session_scope env body w =
     (case db_call env GetEngine w of
        (Some e, w1) \<Rightarrow> (Inl e, w1)
      | (None, w1) \<Rightarrow>
         (let (r, w3) =
                (case body w1 of
                   (Inl e, w2) \<Rightarrow> (Inl e, w2)
                 | (Inr x, w2) \<Rightarrow>
                    (case db_call env Commit w2 of
                       (Some e, w3) \<Rightarrow> (Inl e, w3)
                     | (None, w3) \<Rightarrow> (Inr x, w3)));
              (r', w4) =
                (case r of
                   Inr x \<Rightarrow> (Inr x, w3)
                 | Inl e \<Rightarrow>
                    (case db_call env Rollback w3 of
                       (Some e', w4) \<Rightarrow> (Inl e', w4)
                     | (None, w4) \<Rightarrow> (Inl e, w4)))
          in case db_call env Close w4 of
               (Some e, w5) \<Rightarrow> (Inl e, w5)
             | (None, w5) \<Rightarrow> (r', w5)))"

definition message_id_exists :: "env \<Rightarrow> pyval \<Rightarrow> world \<Rightarrow> (exn + bool) \<times> world" where
  "message_id_exists env message_id w =
     (case session_scope env
             (\<lambda>w1. case db_call env (Count message_id) w1 of
                     (Some e, w2) \<Rightarrow> (Inl e, w2)
                   | (None, w2) \<Rightarrow> (Inr (count_rows message_id (rows w2)), w2))
             w of
        (Inl e, w') \<Rightarrow> (Inl e, w')
      | (Inr message_id_count, w') \<Rightarrow> (Inr (message_id_count > 0), w'))"

section \<open>The cloud function\<close>

datatype response = Response string int

definition already_processed :: "env \<Rightarrow> pyval \<Rightarrow> response" where
  "already_processed env message_id =
     Response (''The message for messageId '' @ py_str env message_id @
               '' has already been processed.'') 200"

text \<open>
  Lines 266 to 274 of \<^verbatim>\<open>trigger_dag\<close>: \<open>Inr None\<close> is the \<^verbatim>\<open>else\<close> branch (the
  malformed-event response), \<open>Inr (Some (message_id, attributes))\<close> the values bound by
  the \<^verbatim>\<open>if\<close> branch, \<open>Inl\<close> an exception raised while evaluating either.
\<close>

definition trigger_dag_parse :: "pyval \<Rightarrow> exn + (pyval \<times> pyval) option" where
  "trigger_dag_parse request_json =
     (if \<not> truthy request_json then Inr None
      else
        (case py_contains request_json ''message'' of
           Inl e \<Rightarrow> Inl e
         | Inr False \<Rightarrow> Inr None
         | Inr True \<Rightarrow>
            (case py_getitem request_json ''message'' of
               Inl e \<Rightarrow> Inl e
             | Inr msg \<Rightarrow>
                (case py_getitem msg ''messageId'' of
                   Inl e \<Rightarrow> Inl e
                 | Inr message_id \<Rightarrow>
                    (case py_get msg ''attributes'' (PyDict []) of
                       Inl e \<Rightarrow> Inl e
                     | Inr attributes \<Rightarrow> Inr (Some (message_id, attributes)))))))"

text \<open>
  What the \<^verbatim>\<open>Text\<close>, \<^verbatim>\<open>nullable=False\<close> column receives for the bound value: a string
  as it is, \<^verbatim>\<open>None\<close> violates the constraint.
\<close>

definition stored_text :: "env \<Rightarrow> pyval \<Rightarrow> exn + string" where
  "stored_text env v =
     (case v of PyStr s \<Rightarrow> Inr s | PyNone \<Rightarrow> Inl IntegrityError | _ \<Rightarrow> Inr (coerce_text env v))"

text \<open>
  Lines 283 to 307: a new session, the table lock, the insert and its commit.
  \<open>Inr (Some r)\<close> is the early \<^verbatim>\<open>return\<close> of the lock-not-available handler,
  \<open>Inr None\<close> falls through to line 309.
\<close>

definition trigger_dag_claim :: "env \<Rightarrow> pyval \<Rightarrow> world \<Rightarrow> (exn + response option) \<times> world" where
  "trigger_dag_claim env message_id w =
     (case db_call env GetEngine w of
        (Some e, w1) \<Rightarrow> (Inl e, w1)
      | (None, w1) \<Rightarrow>
         (case db_call env LockTable w1 of
            (Some (OperationalError pgcode), w2) \<Rightarrow>
              if pgcode = Some ''55P03'' then
                (case db_call env Rollback w2 of
                   (Some e, w3) \<Rightarrow> (Inl e, w3)
                 | (None, w3) \<Rightarrow> (Inr (Some (already_processed env message_id)), w3))
              else (Inl (OperationalError pgcode), w2)
          | (Some e, w2) \<Rightarrow> (Inl e, w2)
          | (None, w2) \<Rightarrow>
             (case stored_text env message_id of
                Inl e \<Rightarrow> (Inl e, w2\<lparr>trace := trace w2 @ [Db (AddCommit message_id) (Some e)]\<rparr>)
              | Inr s \<Rightarrow>
                 (case db_call env (AddCommit message_id) w2 of
                    (Some e, w3) \<Rightarrow> (Inl e, w3)
                  | (None, w3) \<Rightarrow>
                     (case db_call env Close (w3\<lparr>rows := rows w3 @ [s]\<rparr>) of
                        (Some e, w4) \<Rightarrow> (Inl e, w4)
                      | (None, w4) \<Rightarrow> (Inr None, w4))))))"

text \<open>The attribute filter of lines 310 to 314; \<^verbatim>\<open>.get\<close> exists on dictionaries only.\<close>

definition attributes_match :: "pyval \<Rightarrow> exn + bool" where
  "attributes_match attributes =
     (case attributes of
        PyDict kvs \<Rightarrow>
          Inr (map_of kvs ''data_type'' = Some (PyStr ''sales_data'')
               \<and> map_of kvs ''process'' = Some (PyStr ''cleaning'')
               \<and> map_of kvs ''status'' = Some (PyStr ''completed''))
      | _ \<Rightarrow> Inl AttributeError)"

text \<open>Lines 309 to 331; the function ends without a \<^verbatim>\<open>return\<close>, so its value is \<^verbatim>\<open>None\<close>.\<close>

definition trigger_dag_downstream ::
  "env \<Rightarrow> pyval \<Rightarrow> pyval \<Rightarrow> world \<Rightarrow> (exn + response option) \<times> world"
where
  "trigger_dag_downstream env message_id attributes w =
     (case attributes_match attributes of
        Inl e \<Rightarrow> (Inl e, w)
      | Inr False \<Rightarrow> (Inr None, w)
      | Inr True \<Rightarrow>
         (case get_client_id env w of
            (Inl e, w1) \<Rightarrow> (Inl e, w1)
          | (Inr client_id, w1) \<Rightarrow>
             (case get_airflow_webserver_id env w1 of
                (Inl e, w2) \<Rightarrow> (Inl e, w2)
              | (Inr webserver_id, w2) \<Rightarrow>
                 (let webserver_url =
                        ''https://'' @ webserver_id @ ''.appspot.com/api/experimental/dags/'' @
                        fmt_env (DAG_NAME env) @ ''/dag_runs''
                  in case make_iap_request env (PyStr webserver_url) client_id ''POST''
                            [(''timeout'', PyInt (IAP_TIMEOUT env)),
                             (''json'', PyDict [(''conf'', message_id)])] w2 of
                       (Inl e, w3) \<Rightarrow> (Inl e, w3)
                     | (Inr body, w3) \<Rightarrow> (Inr None, w3)))))"

text \<open>
  \<^verbatim>\<open>trigger_dag(request)\<close>, on the value of \<^verbatim>\<open>request.get_json(silent=True)\<close>
  (\<^verbatim>\<open>None\<close> when the body is not JSON). The result is the returned \<^verbatim>\<open>Response\<close>,
  \<open>None\<close> when the function ends without returning one, or the exception raised.
\<close>

definition trigger_dag :: "env \<Rightarrow> pyval \<Rightarrow> world \<Rightarrow> (exn + response option) \<times> world" where
  "trigger_dag env request_json w =
     (case ENABLED env of
        None \<Rightarrow> (Inl AttributeError, w)
      | Some enabled \<Rightarrow>
         if lower enabled = ''false'' then
           (Inr (Some (Response ''Cloud function is disabled, because it's a tea pot.'' 418)), w)
         else
           (case trigger_dag_parse request_json of
              Inl e \<Rightarrow> (Inl e, w)
            | Inr None \<Rightarrow> (Inr (Some (Response ''Error - Malformed Event Notification'' 500)), w)
            | Inr (Some (message_id, attributes)) \<Rightarrow>
               (case message_id_exists env message_id w of
                  (Inl e, w1) \<Rightarrow> (Inl e, w1)
                | (Inr True, w1) \<Rightarrow> (Inr (Some (already_processed env message_id)), w1)
                | (Inr False, w1) \<Rightarrow>
                   (case trigger_dag_claim env message_id w1 of
                      (Inl e, w2) \<Rightarrow> (Inl e, w2)
                    | (Inr (Some r), w2) \<Rightarrow> (Inr (Some r), w2)
                    | (Inr None, w2) \<Rightarrow> trigger_dag_downstream env message_id attributes w2))))"

text \<open>The events an invocation adds to the trace.\<close>

definition events_of :: "env \<Rightarrow> pyval \<Rightarrow> world \<Rightarrow> event list" where
  "events_of env request_json w =
     drop (length (trace w)) (trace (snd (trigger_dag env request_json w)))"

section \<open>Vocabulary of the properties\<close>

text \<open>The \<^verbatim>\<open>ENABLED\<close> switch is set and does not read \<^verbatim>\<open>false\<close>.\<close>

definition enabled :: "env \<Rightarrow> bool" where
  "enabled env = (case ENABLED env of None \<Rightarrow> False | Some s \<Rightarrow> lower s \<noteq> ''false'')"

text \<open>No database operation fails; no database operation but the table lock fails.\<close>

definition db_healthy :: "env \<Rightarrow> bool" where
  "db_healthy env = (\<forall>tr op. db_fault env tr op = None)"

definition db_healthy_but_lock :: "env \<Rightarrow> bool" where
  "db_healthy_but_lock env = (\<forall>tr op. op = LockTable \<or> db_fault env tr op = None)"

fun is_db :: "event \<Rightarrow> bool" where
  "is_db (Db op r) = True"
| "is_db (GoogleAuthDefault r) = False"
| "is_db (FetchIdToken a) = False"
| "is_db (Http req) = False"

text \<open>The calls that leave the function towards the credential service, the
  orchestration environment and the web server.\<close>

definition downstream_calls :: "event list \<Rightarrow> event list" where
  "downstream_calls evs = filter (\<lambda>ev. \<not> is_db ev) evs"

fun is_insert :: "event \<Rightarrow> bool" where
  "is_insert (Db (AddCommit v) r) = True"
| "is_insert ev = False"

definition inserts :: "event list \<Rightarrow> event list" where
  "inserts evs = filter is_insert evs"

fun post_of :: "event \<Rightarrow> http_request list" where
  "post_of (Http req) = (if http_method req = ''POST'' then [req] else [])"
| "post_of ev = []"

definition posts :: "event list \<Rightarrow> http_request list" where
  "posts evs = concat (map post_of evs)"

fun token_fetch_of :: "event \<Rightarrow> string list" where
  "token_fetch_of (FetchIdToken audience) = [audience]"
| "token_fetch_of ev = []"

definition token_fetches :: "event list \<Rightarrow> string list" where
  "token_fetches evs = concat (map token_fetch_of evs)"

fun http_of :: "event \<Rightarrow> http_request list" where
  "http_of (Http req) = [req]"
| "http_of ev = []"

definition http_requests :: "event list \<Rightarrow> http_request list" where
  "http_requests evs = concat (map http_of evs)"

text \<open>The calls that resolve the endpoint: the credential lookup and HTTP \<^verbatim>\<open>GET\<close>s.\<close>

fun is_lookup :: "event \<Rightarrow> bool" where
  "is_lookup (Http req) = (http_method req = ''GET'')"
| "is_lookup (GoogleAuthDefault r) = True"
| "is_lookup (Db op r) = False"
| "is_lookup (FetchIdToken a) = False"

text \<open>Deliveries handled one after the other, each with its own environment.\<close>

fun deliveries :: "(env \<times> pyval) list \<Rightarrow> world \<Rightarrow> world" where
  "deliveries [] w = w"
| "deliveries ((env, request_json) # ds) w =
     deliveries ds (snd (trigger_dag env request_json w))"

section \<open>Two invocations at once\<close>

text \<open>
  The database round trips of one invocation between line 278 and line 306, as the
  steps of a process: the count query of \<^verbatim>\<open>message_id_exists\<close> (\<open>Checking\<close>), the
  \<^verbatim>\<open>LOCK TABLE ... NOWAIT\<close> statement (\<open>Locking\<close>), the insert with its commit
  (\<open>Inserting\<close>). \<open>Claimed\<close> goes on to line 309, \<open>AlreadyClaimed\<close> has returned the
  "already been processed" response. The table and its lock are shared: a query
  waits while another session holds the lock, \<^verbatim>\<open>NOWAIT\<close> fails at once with
  \<^verbatim>\<open>55P03\<close>, the commit releases the lock.
\<close>

datatype pc = Checking | Locking | Inserting | Claimed | AlreadyClaimed

record system =
  tbl :: "string list"
  holder :: "nat option"
  procs :: "(string \<times> pc) list"

definition step :: "nat \<Rightarrow> system \<Rightarrow> system" where
  "step p s =
     (if length (procs s) \<le> p then s
      else
        (case procs s ! p of
           (m, Checking) \<Rightarrow>
             if holder s \<noteq> None then s
             else s\<lparr>procs := (procs s)[p := (m, if count_rows (PyStr m) (tbl s) > 0
                                                  then AlreadyClaimed else Locking)]\<rparr>
         | (m, Locking) \<Rightarrow>
             if holder s \<noteq> None then s\<lparr>procs := (procs s)[p := (m, AlreadyClaimed)]\<rparr>
             else s\<lparr>holder := Some p, procs := (procs s)[p := (m, Inserting)]\<rparr>
         | (m, Inserting) \<Rightarrow>
             s\<lparr>tbl := tbl s @ [m], holder := None, procs := (procs s)[p := (m, Claimed)]\<rparr>
         | (m, Claimed) \<Rightarrow> s
         | (m, AlreadyClaimed) \<Rightarrow> s))"

text \<open>A schedule names the process that takes the next step.\<close>

fun schedule :: "nat list \<Rightarrow> system \<Rightarrow> system" where
  "schedule [] s = s"
| "schedule (p # ps) s = schedule ps (step p s)"

section \<open>A concrete deployment\<close>

definition composer_response :: http_response where
  "composer_response =
     \<lparr>status_code = 200, resp_headers = [], body_text = [],
      body_json = Inr (PyDict [(''config'',
                    PyDict [(''airflowUri'', PyStr ''https://bc5c0e43e23571a62-tp.appspot.com'')])])\<rparr>"

definition redirect_response :: http_response where
  "redirect_response =
     \<lparr>status_code = 302,
      resp_headers = [(''Location'',
         ''https://accounts.google.com/o/oauth2/v2/auth?client_id=573384987581.apps.googleusercontent.com'')],
      body_text = [], body_json = Inl (External ''ValueError'')\<rparr>"

definition airflow_response :: "int \<Rightarrow> http_response" where
  "airflow_response code =
     \<lparr>status_code = code, resp_headers = [(''Content-Type'', ''application/json'')],
      body_text = ''{}'', body_json = Inr (PyDict [])\<rparr>"

definition example_env :: env where
  "example_env =
     \<lparr>ENABLED = Some ''True'',
      GOOGLE_PROJECT_NAME = Some ''my-project'',
      COMPOSER_ENVIRONMENT_NAME = Some ''my-composer'',
      DAG_NAME = Some ''sales_dag'',
      IAP_TIMEOUT = 90,
      db_fault = (\<lambda>tr op. None),
      coerce_text = (\<lambda>v. []),
      str_other = (\<lambda>v. []),
      google_auth_default = (\<lambda>tr. None),
      http = (\<lambda>tr req. if http_method req = ''POST'' then Inr (airflow_response 200)
                         else if authorized req then Inr composer_response
                         else Inr redirect_response),
      fetch_id_token = (\<lambda>tr audience. Inr ''eyJhbGciOi''),
      parse_client_id = (\<lambda>location. Inr ''573384987581.apps.googleusercontent.com'')\<rparr>"

definition example_request :: "(string \<times> pyval) list \<Rightarrow> pyval" where
  "example_request attributes =
     PyDict [(''message'', PyDict [(''messageId'', PyStr ''abc123''),
                                   (''attributes'', PyDict attributes)])]"

definition sales_attributes :: "(string \<times> pyval) list" where
  "sales_attributes =
     [(''data_type'', PyStr ''sales_data''), (''process'', PyStr ''cleaning''),
      (''status'', PyStr ''completed'')]"

definition empty_world :: world where
  "empty_world = \<lparr>rows = [], trace = []\<rparr>"

definition other_request :: pyval where
  "other_request = PyDict [(''message'', PyDict [(''messageId'', PyStr ''xyz789'')])]"

section \<open>What the operations do to the table\<close>

lemma rows_db_call: "rows (snd (db_call env op w)) = rows w"
  by (simp add: db_call_def Let_def)

lemma trace_db_call: "trace (snd (db_call env op w)) = trace w @ [Db op (db_fault env (trace w) op)]"
  by (simp add: db_call_def Let_def)

lemma db_call_ok:
  "db_fault env (trace w) op = None \<Longrightarrow> db_call env op w = (None, w\<lparr>trace := trace w @ [Db op None]\<rparr>)"
  by (simp add: db_call_def Let_def)

lemma message_id_exists_ok:
  assumes "db_healthy_but_lock env"
  shows "message_id_exists env v w =
     (Inr (0 < count_rows v (rows w)),
      w\<lparr>trace := trace w @ [Db GetEngine None, Db (Count v) None, Db Commit None, Db Close None]\<rparr>)"
proof -
  have f: "\<And>tr op. op \<noteq> LockTable \<Longrightarrow> db_fault env tr op = None"
    using assms by (auto simp: db_healthy_but_lock_def)
  show ?thesis
    by (simp add: message_id_exists_def session_scope_def db_call_def Let_def f)
qed

lemma rows_session_scope:
  assumes "\<And>w. rows (snd (body w)) = rows w"
  shows "rows (snd (session_scope env body w)) = rows w"
  using assms [of "snd (db_call env GetEngine w)"]
  apply (simp add: session_scope_def Let_def split: prod.splits option.splits sum.splits)
  apply (auto simp: db_call_def Let_def split: prod.splits option.splits sum.splits)
  done

lemma rows_message_id_exists: "rows (snd (message_id_exists env v w)) = rows w"
proof -
  have "rows (snd (session_scope env
             (\<lambda>w1. case db_call env (Count v) w1 of
                     (Some e, w2) \<Rightarrow> (Inl e, w2)
                   | (None, w2) \<Rightarrow> (Inr (count_rows v (rows w2)), w2)) w)) = rows w"
    by (rule rows_session_scope) (auto simp: db_call_def Let_def split: option.splits)
  then show ?thesis
    by (auto simp: message_id_exists_def split: prod.splits sum.splits)
qed

lemma rows_http_call: "rows (snd (http_call env req w)) = rows w"
  by (simp add: http_call_def)

lemma rows_get_airflow_uri: "rows (snd (get_airflow_uri env w)) = rows w"
  by (auto simp: get_airflow_uri_def http_call_def Let_def split: option.splits sum.splits prod.splits)

lemma rows_get_client_id: "rows (snd (get_client_id env w)) = rows w"
  using rows_get_airflow_uri [of env w]
  by (auto simp: get_client_id_def http_call_def split: option.splits sum.splits prod.splits)

lemma rows_get_airflow_webserver_id: "rows (snd (get_airflow_webserver_id env w)) = rows w"
  using rows_get_airflow_uri [of env w]
  by (auto simp: get_airflow_webserver_id_def split: sum.splits prod.splits pyval.splits)

lemma rows_make_iap_request: "rows (snd (make_iap_request env u c m k w)) = rows w"
  by (auto simp: make_iap_request_def http_call_def Let_def split: sum.splits prod.splits)

lemma rows_get_client_idD: "get_client_id env w = (r, w') \<Longrightarrow> rows w' = rows w"
  using rows_get_client_id [of env w] by simp

lemma rows_get_airflow_webserver_idD: "get_airflow_webserver_id env w = (r, w') \<Longrightarrow> rows w' = rows w"
  using rows_get_airflow_webserver_id [of env w] by simp

lemma rows_make_iap_requestD: "make_iap_request env u c m k w = (r, w') \<Longrightarrow> rows w' = rows w"
  using rows_make_iap_request [of env u c m k w] by simp

lemma rows_message_id_existsD: "message_id_exists env v w = (r, w') \<Longrightarrow> rows w' = rows w"
  using rows_message_id_exists [of env v w] by simp

lemma rows_trigger_dag_downstream: "rows (snd (trigger_dag_downstream env v a w)) = rows w"
  by (auto simp: trigger_dag_downstream_def Let_def split: prod.splits sum.splits bool.splits
           dest!: rows_get_client_idD rows_get_airflow_webserver_idD rows_make_iap_requestD)

lemma rows_trigger_dag_downstreamD: "trigger_dag_downstream env v a w = (r, w') \<Longrightarrow> rows w' = rows w"
  using rows_trigger_dag_downstream [of env v a w] by simp

lemma rows_trigger_dag_claim:
  "trigger_dag_claim env v w = (r, w') \<Longrightarrow>
     rows w' = rows w \<and> r \<noteq> Inr None \<or> (\<exists>s. stored_text env v = Inr s \<and> rows w' = rows w @ [s])"
  by (auto simp: trigger_dag_claim_def db_call_def Let_def split: option.splits sum.splits exn.splits if_splits)

lemma message_id_exists_value:
  "message_id_exists env v w = (Inr b, w') \<Longrightarrow> b = (0 < count_rows v (rows w))"
  by (auto simp: message_id_exists_def session_scope_def db_call_def Let_def
           split: option.splits sum.splits prod.splits if_splits)

lemma message_id_existsD:
  "message_id_exists env v w = (r, w') \<Longrightarrow>
     rows w' = rows w \<and> (r = Inr True \<longrightarrow> 0 < count_rows v (rows w)) \<and>
     (r = Inr False \<longrightarrow> count_rows v (rows w) = 0)"
  using rows_message_id_existsD [of env v w r w'] message_id_exists_value [of env v w _ w']
  by auto

lemma rows_trigger_dag:
  "trigger_dag env req w = (r, w') \<Longrightarrow>
     rows w' = rows w \<or>
     (\<exists>v a s. trigger_dag_parse req = Inr (Some (v, a)) \<and> stored_text env v = Inr s \<and>
        count_rows v (rows w) = 0 \<and> rows w' = rows w @ [s])"
  apply (simp add: trigger_dag_def split: option.splits if_splits sum.splits prod.splits bool.splits)
  apply (auto dest!: message_id_existsD rows_trigger_dag_downstreamD dest: rows_trigger_dag_claim)
  done


section \<open>The switch, the parser and the response\<close>

lemma lower_false_variants: "lower ''FALSE'' = ''false'' \<and> lower ''False'' = ''false''"
  by (simp add: lower_def lower_char_def)

lemma disabled_short_circuits:
  "ENABLED env = Some s \<Longrightarrow> lower s = ''false'' \<Longrightarrow>
     trigger_dag env request_json w =
       (Inr (Some (Response ''Cloud function is disabled, because it's a tea pot.'' 418)), w)"
  by (simp add: trigger_dag_def)

lemma malformed_event_response:
  "enabled env \<Longrightarrow> trigger_dag_parse request_json = Inr None \<Longrightarrow>
     trigger_dag env request_json w =
       (Inr (Some (Response ''Error - Malformed Event Notification'' 500)), w)"
  by (auto simp: trigger_dag_def enabled_def split: option.splits)

lemma unparsed_request_leaves_world:
  "trigger_dag_parse request_json = Inl e \<or> trigger_dag_parse request_json = Inr None \<Longrightarrow>
     snd (trigger_dag env request_json w) = w"
  by (auto simp: trigger_dag_def split: option.splits)

text \<open>
  C10. When the \<^verbatim>\<open>ENABLED\<close> environment variable is unset, every invocation raises
  \<^verbatim>\<open>AttributeError\<close> at its first step (\<^verbatim>\<open>None.lower()\<close>): whatever the request, the
  result is that exception and the world is untouched, so neither the parser nor
  the dedup store is reached.
\<close>

theorem enabled_unset_raises:
  "ENABLED env = None \<Longrightarrow> trigger_dag env request_json w = (Inl AttributeError, w)"
  by (simp add: trigger_dag_def)

theorem enabled_unset_raises_witness:
  "ENABLED (example_env\<lparr>ENABLED := None\<rparr>) = None \<and>
   trigger_dag (example_env\<lparr>ENABLED := None\<rparr>) (PyBool True) empty_world =
     (Inl AttributeError, empty_world)"
  using enabled_unset_raises [of "example_env\<lparr>ENABLED := None\<rparr>" "PyBool True" empty_world]
  by simp

text \<open>
  C6. A notification whose \<^verbatim>\<open>message\<close> object lacks the \<^verbatim>\<open>messageId\<close> field is not
  answered with the malformed-event response: the subscript of line 269 raises
  \<^verbatim>\<open>KeyError\<close>. Nothing is written to the datastore.
\<close>

theorem missing_message_id_raises:
  "trigger_dag example_env
     (PyDict [(''message'', PyDict [(''attributes'', PyDict sales_attributes)])]) empty_world =
   (Inl (KeyError ''messageId''), empty_world)"
  by (simp add: trigger_dag_def trigger_dag_parse_def example_env_def lower_def lower_char_def)

text \<open>
  C9. A first delivery, whether its attributes pass the filter or not, ends
  without a \<^verbatim>\<open>return\<close>: the value of \<^verbatim>\<open>trigger_dag\<close> is \<^verbatim>\<open>None\<close>, not a response of
  status 200.
\<close>

theorem first_delivery_returns_no_response:
  "fst (trigger_dag example_env (example_request sales_attributes) empty_world) = Inr None \<and>
   fst (trigger_dag example_env (example_request []) empty_world) = Inr None"
  by (simp add: trigger_dag_def example_env_def example_request_def sales_attributes_def
        empty_world_def lower_def lower_char_def trigger_dag_parse_def
        message_id_exists_def session_scope_def db_call_def count_rows_def
        trigger_dag_claim_def stored_text_def trigger_dag_downstream_def attributes_match_def
        get_client_id_def get_airflow_uri_def http_call_def header_lookup_def
        get_airflow_webserver_id_def make_iap_request_def Let_def
        composer_response_def redirect_response_def airflow_response_def)

section \<open>Claims, redeliveries and the downstream call\<close>

lemma make_iap_request_result:
  assumes tok: "fetch_id_token env (trace w) client_id = Inr token"
      and hdr: "map_of kwargs0 ''headers'' = None"
      and req: "req = \<lparr>http_method = meth, url = u,
                       headers = [(''Authorization'', ''Bearer '' @ token)],
                       kwargs = (if map_of kwargs0 ''timeout'' = None
                                 then kwargs0 @ [(''timeout'', PyInt 90)] else kwargs0),
                       authorized = False\<rparr>"
      and resp: "http env (trace w @ [FetchIdToken client_id]) req = Inr resp"
  shows "make_iap_request env u client_id meth kwargs0 w =
           (if status_code resp = 403 then Inl (Exception (Text (''Service account does not have permission to '' @
                                        ''access the IAP-protected application.'')))
            else if status_code resp \<noteq> 200
              then Inl (Exception (BadResponse (status_code resp) (resp_headers resp) (body_text resp)))
            else Inr (body_text resp),
            w\<lparr>trace := trace w @ [FetchIdToken client_id, Http req]\<rparr>)"
proof -
  have h: "map_of (if map_of kwargs0 ''timeout'' = None
                   then kwargs0 @ [(''timeout'', PyInt 90)] else kwargs0) ''headers'' = None"
    using hdr by (simp add: map_add_def)
  show ?thesis
    using tok resp h unfolding req
    by (simp add: make_iap_request_def http_call_def Let_def)
qed

lemma count_rows_str: "(0 < count_rows (PyStr m) rs) = (m \<in> set rs)"
  by (induction rs) (auto simp: count_rows_def)

lemma count_rows_zero_str: "(count_rows (PyStr m) rs = 0) = (m \<notin> set rs)"
  using count_rows_str [of m rs] by auto

lemma redelivery_result:
  assumes en: "enabled env" and db: "db_healthy_but_lock env"
      and parse: "trigger_dag_parse request_json = Inr (Some (v, a))"
      and seen: "0 < count_rows v (rows w)"
  shows "trigger_dag env request_json w =
           (Inr (Some (already_processed env v)),
            w\<lparr>trace := trace w @ [Db GetEngine None, Db (Count v) None, Db Commit None, Db Close None]\<rparr>)"
  using en parse seen
  by (auto simp: trigger_dag_def enabled_def message_id_exists_ok [OF db] split: option.splits)

lemma events_of_append:
  "snd (trigger_dag env request_json w) = w\<lparr>rows := rs, trace := trace w @ evs\<rparr> \<Longrightarrow> events_of env request_json w = evs"
  "snd (trigger_dag env request_json w) = w\<lparr>trace := trace w @ evs\<rparr> \<Longrightarrow> events_of env request_json w = evs"
  by (simp_all add: events_of_def)

lemma lock_failure_result:
  assumes en: "enabled env" and db: "db_healthy_but_lock env"
      and parse: "trigger_dag_parse request_json = Inr (Some (v, a))"
      and unseen: "count_rows v (rows w) = 0"
      and lock: "db_fault env (trace w @ [Db GetEngine None, Db (Count v) None, Db Commit None,
                                         Db Close None, Db GetEngine None]) LockTable = Some e"
  shows "trigger_dag env request_json w =
           (if e = OperationalError (Some ''55P03'') then Inr (Some (already_processed env v)) else Inl e,
            w\<lparr>trace := trace w @ [Db GetEngine None, Db (Count v) None, Db Commit None, Db Close None,
                                  Db GetEngine None, Db LockTable (Some e)] @
                       (if e = OperationalError (Some ''55P03'') then [Db Rollback None] else [])\<rparr>)"
proof -
  have f: "\<And>tr op. op \<noteq> LockTable \<Longrightarrow> db_fault env tr op = None"
    using db by (auto simp: db_healthy_but_lock_def)
  show ?thesis
    using en parse unseen lock
    by (auto simp: trigger_dag_def enabled_def message_id_exists_ok [OF db] trigger_dag_claim_def
          db_call_def Let_def f split: option.splits exn.splits)
qed

lemma rows_deliveries: "set (rows w) \<subseteq> set (rows (deliveries ds w))"
proof (induction ds arbitrary: w)
  case Nil
  then show ?case by simp
next
  case (Cons d ds)
  obtain env request_json where d: "d = (env, request_json)" by (cases d)
  obtain r w' where t: "trigger_dag env request_json w = (r, w')" by (cases "trigger_dag env request_json w")
  have "set (rows w) \<subseteq> set (rows w')" using rows_trigger_dag [OF t] by auto
  moreover have "set (rows w') \<subseteq> set (rows (deliveries ds w'))" by (rule Cons.IH)
  ultimately show ?case using d t by simp
qed



text \<open>
  C5. Once the identity token is fetched and the web server has answered,
  \<^verbatim>\<open>make_iap_request\<close> returns the response body exactly when the status is 200;
  status 403 raises the exception with the "does not have permission" message,
  every other status raises the "Bad response" exception carrying status code,
  headers and body; in each case exactly one HTTP request has been sent (no retry).
\<close>

theorem make_iap_request_classifies:
  assumes "fetch_id_token env (trace w) client_id = Inr token"
      and "map_of kwargs0 ''headers'' = None"
      and "req = \<lparr>http_method = meth, url = u,
                   headers = [(''Authorization'', ''Bearer '' @ token)],
                   kwargs = (if map_of kwargs0 ''timeout'' = None
                             then kwargs0 @ [(''timeout'', PyInt 90)] else kwargs0),
                   authorized = False\<rparr>"
      and "http env (trace w @ [FetchIdToken client_id]) req = Inr resp"
  shows "fst (make_iap_request env u client_id meth kwargs0 w) =
           (if status_code resp = 200 then Inr (body_text resp)
            else if status_code resp = 403
              then Inl (Exception (Text (''Service account does not have permission to '' @
                                         ''access the IAP-protected application.'')))
            else Inl (Exception (BadResponse (status_code resp) (resp_headers resp) (body_text resp))))
         \<and> (\<exists>body. fst (make_iap_request env u client_id meth kwargs0 w) = Inr body) =
             (status_code resp = 200)
         \<and> http_requests (drop (length (trace w))
               (trace (snd (make_iap_request env u client_id meth kwargs0 w)))) = [req]"
  using make_iap_request_result [OF assms]
  by (simp add: http_requests_def)

theorem make_iap_request_classifies_witness:
  "fst (make_iap_request example_env (PyStr ''https://tp.appspot.com/api'') ''aud'' ''POST''
          [(''json'', PyDict [])] empty_world) = Inr ''{}''
   \<and> fst (make_iap_request (example_env\<lparr>http := \<lambda>tr req. Inr (airflow_response 403)\<rparr>)
          (PyStr ''https://tp.appspot.com/api'') ''aud'' ''POST'' [(''json'', PyDict [])] empty_world) =
       Inl (Exception (Text ''Service account does not have permission to access the IAP-protected application.''))
   \<and> fst (make_iap_request (example_env\<lparr>http := \<lambda>tr req. Inr (airflow_response 500)\<rparr>)
          (PyStr ''https://tp.appspot.com/api'') ''aud'' ''POST'' [(''json'', PyDict [])] empty_world) =
       Inl (Exception (BadResponse 500 [(''Content-Type'', ''application/json'')] ''{}''))
   \<and> http_requests (trace (snd (make_iap_request (example_env\<lparr>http := \<lambda>tr req. Inr (airflow_response 500)\<rparr>)
          (PyStr ''https://tp.appspot.com/api'') ''aud'' ''POST'' [(''json'', PyDict [])] empty_world))) =
       [\<lparr>http_method = ''POST'', url = PyStr ''https://tp.appspot.com/api'',
         headers = [(''Authorization'', ''Bearer eyJhbGciOi'')],
         kwargs = [(''json'', PyDict []), (''timeout'', PyInt 90)], authorized = False\<rparr>]"
  using make_iap_request_classifies [of example_env empty_world "''aud''" "''eyJhbGciOi''"
          "[(''json'', PyDict [])]" _ "''POST''" "PyStr ''https://tp.appspot.com/api''"
          "airflow_response 200", OF _ _ refl]
        make_iap_request_classifies [of "example_env\<lparr>http := \<lambda>tr req. Inr (airflow_response 403)\<rparr>"
          empty_world "''aud''" "''eyJhbGciOi''"
          "[(''json'', PyDict [])]" _ "''POST''" "PyStr ''https://tp.appspot.com/api''"
          "airflow_response 403", OF _ _ refl]
        make_iap_request_classifies [of "example_env\<lparr>http := \<lambda>tr req. Inr (airflow_response 500)\<rparr>"
          empty_world "''aud''" "''eyJhbGciOi''"
          "[(''json'', PyDict [])]" _ "''POST''" "PyStr ''https://tp.appspot.com/api''"
          "airflow_response 500", OF _ _ refl]
  by (simp add: example_env_def empty_world_def airflow_response_def)

text \<open>
  C4. When the existence check finds no row and the \<^verbatim>\<open>LOCK TABLE ... NOWAIT\<close>
  statement fails with exception \<open>e\<close>: if \<open>e\<close> is an \<^verbatim>\<open>OperationalError\<close> with pgcode
  \<^verbatim>\<open>55P03\<close> (lock not available) the function returns the "already been processed"
  response with status 200; any other \<open>e\<close> is raised to the caller. In both cases no
  row is inserted.
\<close>

theorem lock_failure_outcome:
  assumes "enabled env" and "db_healthy_but_lock env"
      and "trigger_dag_parse request_json = Inr (Some (message_id, attributes))"
      and "count_rows message_id (rows w) = 0"
      and "db_fault env (trace w @ [Db GetEngine None, Db (Count message_id) None, Db Commit None,
                                   Db Close None, Db GetEngine None]) LockTable = Some e"
  shows "fst (trigger_dag env request_json w) =
           (if e = OperationalError (Some ''55P03'')
            then Inr (Some (Response (''The message for messageId '' @ py_str env message_id @
                                      '' has already been processed.'') 200))
            else Inl e)
         \<and> rows (snd (trigger_dag env request_json w)) = rows w
         \<and> inserts (events_of env request_json w) = []"
  using lock_failure_result [OF assms]
  by (simp add: events_of_def inserts_def already_processed_def)

theorem lock_failure_outcome_witness:
  "fst (trigger_dag
          (example_env\<lparr>db_fault := \<lambda>tr op. if op = LockTable then Some (OperationalError (Some ''55P03'')) else None\<rparr>)
          (example_request sales_attributes) empty_world) =
     Inr (Some (Response ''The message for messageId abc123 has already been processed.'' 200))
   \<and> fst (trigger_dag
          (example_env\<lparr>db_fault := \<lambda>tr op. if op = LockTable then Some (OperationalError (Some ''08006'')) else None\<rparr>)
          (example_request sales_attributes) empty_world) =
     Inl (OperationalError (Some ''08006''))
   \<and> rows (snd (trigger_dag
          (example_env\<lparr>db_fault := \<lambda>tr op. if op = LockTable then Some (OperationalError (Some ''55P03'')) else None\<rparr>)
          (example_request sales_attributes) empty_world)) = []"
  using lock_failure_outcome [of
          "example_env\<lparr>db_fault := \<lambda>tr op. if op = LockTable then Some (OperationalError (Some ''55P03'')) else None\<rparr>"
          "example_request sales_attributes" "PyStr ''abc123''" "PyDict sales_attributes" empty_world
          "OperationalError (Some ''55P03'')"]
        lock_failure_outcome [of
          "example_env\<lparr>db_fault := \<lambda>tr op. if op = LockTable then Some (OperationalError (Some ''08006'')) else None\<rparr>"
          "example_request sales_attributes" "PyStr ''abc123''" "PyDict sales_attributes" empty_world
          "OperationalError (Some ''08006'')"]
  by (simp add: example_env_def empty_world_def example_request_def enabled_def lower_def lower_char_def
        db_healthy_but_lock_def trigger_dag_parse_def count_rows_def py_str_def)


lemma redelivery_outcome:
  assumes en: "enabled env" and db: "db_healthy_but_lock env"
      and parse: "trigger_dag_parse request_json = Inr (Some (PyStr m, a))"
      and seen: "m \<in> set (rows w)"
  shows "fst (trigger_dag env request_json w) =
           Inr (Some (Response (''The message for messageId '' @ m @ '' has already been processed.'') 200))
         \<and> rows (snd (trigger_dag env request_json w)) = rows w
         \<and> inserts (events_of env request_json w) = []
         \<and> downstream_calls (events_of env request_json w) = []"
  using redelivery_result [OF en db parse] seen
  by (simp add: count_rows_str events_of_def inserts_def downstream_calls_def
        already_processed_def py_str_def)


lemma example_first_delivery:
  "trigger_dag example_env (example_request []) empty_world =
     (Inr None, \<lparr>rows = [''abc123''],
                 trace = [Db GetEngine None, Db (Count (PyStr ''abc123'')) None, Db Commit None,
                          Db Close None, Db GetEngine None, Db LockTable None,
                          Db (AddCommit (PyStr ''abc123'')) None, Db Close None]\<rparr>)"
  by (simp add: trigger_dag_def example_env_def example_request_def
        empty_world_def lower_def lower_char_def trigger_dag_parse_def
        message_id_exists_def session_scope_def db_call_def count_rows_def
        trigger_dag_claim_def stored_text_def trigger_dag_downstream_def attributes_match_def Let_def)


lemma lookups_posts: "list_all is_lookup evs \<Longrightarrow> posts evs = []"
  by (induction evs) (auto simp: posts_def elim: is_lookup.elims)

lemma lookups_token_fetches: "list_all is_lookup evs \<Longrightarrow> token_fetches evs = []"
  by (induction evs) (auto simp: token_fetches_def elim: is_lookup.elims)

lemma posts_append: "posts (xs @ ys) = posts xs @ posts ys"
  by (simp add: posts_def)

lemma token_fetches_append: "token_fetches (xs @ ys) = token_fetches xs @ token_fetches ys"
  by (simp add: token_fetches_def)

lemma get_airflow_uri_events:
  "get_airflow_uri env w = (r, w') \<Longrightarrow> \<exists>evs. w' = w\<lparr>trace := trace w @ evs\<rparr> \<and> list_all is_lookup evs"
  by (auto simp: get_airflow_uri_def http_call_def Let_def split: option.splits sum.splits)

lemma get_airflow_webserver_id_events:
  "get_airflow_webserver_id env w = (r, w') \<Longrightarrow>
     \<exists>evs. w' = w\<lparr>trace := trace w @ evs\<rparr> \<and> list_all is_lookup evs"
  by (auto simp: get_airflow_webserver_id_def split: prod.splits sum.splits pyval.splits
           dest!: get_airflow_uri_events)

lemma get_client_id_events:
  "get_client_id env w = (r, w') \<Longrightarrow>
     \<exists>evs. w' = w\<lparr>trace := trace w @ evs\<rparr> \<and> list_all is_lookup evs"
  by (auto simp: get_client_id_def http_call_def split: prod.splits sum.splits
           dest!: get_airflow_uri_events)


lemma make_iap_request_events:
  assumes tok: "fetch_id_token env (trace w) client_id = Inr token"
      and hdr: "map_of kwargs0 ''headers'' = None"
  shows "snd (make_iap_request env u client_id meth kwargs0 w) =
           w\<lparr>trace := trace w @
                [FetchIdToken client_id,
                 Http \<lparr>http_method = meth, url = u,
                       headers = [(''Authorization'', ''Bearer '' @ token)],
                       kwargs = (if map_of kwargs0 ''timeout'' = None
                                 then kwargs0 @ [(''timeout'', PyInt 90)] else kwargs0),
                       authorized = False\<rparr>]\<rparr>"
proof -
  have h: "map_of (if map_of kwargs0 ''timeout'' = None
                   then kwargs0 @ [(''timeout'', PyInt 90)] else kwargs0) ''headers'' = None"
    using hdr by (simp add: map_add_def)
  show ?thesis
    using tok h
    by (simp add: make_iap_request_def http_call_def Let_def split: sum.splits)
qed

lemma first_delivery_reaches_downstream:
  assumes en: "enabled env" and db: "db_healthy env"
      and parse: "trigger_dag_parse request_json = Inr (Some (PyStr m, a))"
      and unseen: "m \<notin> set (rows w)"
  shows "trigger_dag env request_json w =
           trigger_dag_downstream env (PyStr m) a
             (w\<lparr>rows := rows w @ [m],
                trace := trace w @
                  [Db GetEngine None, Db (Count (PyStr m)) None, Db Commit None, Db Close None,
                   Db GetEngine None, Db LockTable None, Db (AddCommit (PyStr m)) None,
                   Db Close None]\<rparr>)"
proof -
  have f: "\<And>tr op. db_fault env tr op = None"
    using db by (simp add: db_healthy_def)
  have l: "db_healthy_but_lock env"
    using db by (simp add: db_healthy_def db_healthy_but_lock_def)
  have c: "\<not> 0 < count_rows (PyStr m) (rows w)"
    using unseen by (simp add: count_rows_str)
  show ?thesis
    using en parse c
    by (auto simp: trigger_dag_def enabled_def message_id_exists_ok [OF l] trigger_dag_claim_def
          db_call_def Let_def f stored_text_def split: option.splits)
qed

lemma filtered_delivery_result:
  assumes en: "enabled env" and db: "db_healthy env"
      and parse: "trigger_dag_parse request_json = Inr (Some (PyStr m, a))"
      and unseen: "m \<notin> set (rows w)"
      and nomatch: "attributes_match a = Inr False"
  shows "trigger_dag env request_json w =
           (Inr None,
            w\<lparr>rows := rows w @ [m],
               trace := trace w @
                  [Db GetEngine None, Db (Count (PyStr m)) None, Db Commit None, Db Close None,
                   Db GetEngine None, Db LockTable None, Db (AddCommit (PyStr m)) None,
                   Db Close None]\<rparr>)"
  using nomatch
  by (simp add: first_delivery_reaches_downstream [OF en db parse unseen] trigger_dag_downstream_def)

text \<open>
  C7. A first delivery of message identifier \<open>m\<close> whose attributes do not pass the
  filter (database healthy, switch enabled) ends normally with no downstream call
  and with the row \<open>m\<close> committed; after any further deliveries, a later delivery of
  \<open>m\<close> with any attributes gets the "already been processed" response, inserts
  nothing and makes no downstream call.
\<close>

theorem filtered_out_stays_claimed:
  assumes "enabled env" and "db_healthy env"
      and "trigger_dag_parse request_json = Inr (Some (PyStr m, attributes))"
      and "m \<notin> set (rows w)"
      and "attributes_match attributes = Inr False"
      and "w2 = deliveries ds (snd (trigger_dag env request_json w))"
      and "trigger_dag_parse request2 = Inr (Some (PyStr m, attributes2))"
      and "enabled env2" and "db_healthy_but_lock env2"
  shows "fst (trigger_dag env request_json w) = Inr None
         \<and> downstream_calls (events_of env request_json w) = []
         \<and> rows (snd (trigger_dag env request_json w)) = rows w @ [m]
         \<and> fst (trigger_dag env2 request2 w2) =
             Inr (Some (Response (''The message for messageId '' @ m @
                                  '' has already been processed.'') 200))
         \<and> rows (snd (trigger_dag env2 request2 w2)) = rows w2
         \<and> downstream_calls (events_of env2 request2 w2) = []"
proof -
  note first = filtered_delivery_result [OF assms(1-5)]
  have "m \<in> set (rows (snd (trigger_dag env request_json w)))"
    by (simp add: first)
  then have seen: "m \<in> set (rows w2)"
    using rows_deliveries [of "snd (trigger_dag env request_json w)" ds] assms(6) by auto
  show ?thesis
    using redelivery_outcome [OF assms(8) assms(9) assms(7) seen]
    by (simp add: first events_of_def downstream_calls_def)
qed

theorem filtered_out_stays_claimed_witness:
  "fst (trigger_dag example_env (example_request [(''data_type'', PyStr ''sales_data'')]) empty_world)
     = Inr None
   \<and> downstream_calls (events_of example_env
        (example_request [(''data_type'', PyStr ''sales_data'')]) empty_world) = []
   \<and> rows (snd (trigger_dag example_env
        (example_request [(''data_type'', PyStr ''sales_data'')]) empty_world)) = [''abc123'']
   \<and> fst (trigger_dag example_env (example_request sales_attributes)
        (deliveries [(example_env, other_request)]
           (snd (trigger_dag example_env
              (example_request [(''data_type'', PyStr ''sales_data'')]) empty_world)))) =
       Inr (Some (Response ''The message for messageId abc123 has already been processed.'' 200))
   \<and> downstream_calls (events_of example_env (example_request sales_attributes)
        (deliveries [(example_env, other_request)]
           (snd (trigger_dag example_env
              (example_request [(''data_type'', PyStr ''sales_data'')]) empty_world)))) = []"
  using filtered_out_stays_claimed [of example_env
          "example_request [(''data_type'', PyStr ''sales_data'')]" "''abc123''"
          "PyDict [(''data_type'', PyStr ''sales_data'')]" empty_world _
          "[(example_env, other_request)]"
          "example_request sales_attributes" "PyDict sales_attributes" example_env, OF _ _ _ _ _ refl]
  by (simp add: example_env_def empty_world_def example_request_def enabled_def lower_def
        lower_char_def db_healthy_def db_healthy_but_lock_def trigger_dag_parse_def
        attributes_match_def)

lemma downstream_after_lookups:
  assumes m: "attributes_match a = Inr True"
      and c: "get_client_id env w = (Inr client_id, w3)"
      and i: "get_airflow_webserver_id env w3 = (Inr webserver_id, w4)"
  shows "snd (trigger_dag_downstream env v a w) =
           snd (make_iap_request env
                  (PyStr (''https://'' @ webserver_id @ ''.appspot.com/api/experimental/dags/'' @
                          fmt_env (DAG_NAME env) @ ''/dag_runs''))
                  client_id ''POST''
                  [(''timeout'', PyInt (IAP_TIMEOUT env)), (''json'', PyDict [(''conf'', v)])] w4)"
  using m c i
  by (simp add: trigger_dag_downstream_def Let_def split: prod.splits sum.splits)

text \<open>
  C8. A first delivery of message identifier \<open>m\<close> whose attributes pass the filter
  (database healthy, switch enabled, client id and web server id resolved, identity
  token fetched) issues exactly one HTTP \<^verbatim>\<open>POST\<close>, to
  \<^verbatim>\<open>https://{webserver_id}.appspot.com/api/experimental/dags/{DAG_NAME}/dag_runs\<close>, with
  JSON body \<^verbatim>\<open>{"conf": m}\<close>, the configured timeout and the header
  \<^verbatim>\<open>Authorization: Bearer\<close> followed by the token, and that token is the one fetched,
  once, during this invocation for the resolved client id.
\<close>

theorem matching_delivery_posts_once:
  assumes "enabled env" and "db_healthy env"
      and "trigger_dag_parse request_json = Inr (Some (PyStr m, attributes))"
      and "m \<notin> set (rows w)"
      and "attributes_match attributes = Inr True"
      and "w2 = w\<lparr>rows := rows w @ [m],
                    trace := trace w @
                      [Db GetEngine None, Db (Count (PyStr m)) None, Db Commit None, Db Close None,
                       Db GetEngine None, Db LockTable None, Db (AddCommit (PyStr m)) None,
                       Db Close None]\<rparr>"
      and "get_client_id env w2 = (Inr client_id, w3)"
      and "get_airflow_webserver_id env w3 = (Inr webserver_id, w4)"
      and "fetch_id_token env (trace w4) client_id = Inr token"
  shows "posts (events_of env request_json w) =
           [\<lparr>http_method = ''POST'',
             url = PyStr (''https://'' @ webserver_id @ ''.appspot.com/api/experimental/dags/'' @
                          fmt_env (DAG_NAME env) @ ''/dag_runs''),
             headers = [(''Authorization'', ''Bearer '' @ token)],
             kwargs = [(''timeout'', PyInt (IAP_TIMEOUT env)),
                       (''json'', PyDict [(''conf'', PyStr m)])],
             authorized = False\<rparr>]
         \<and> token_fetches (events_of env request_json w) = [client_id]"
proof -
  obtain evs1 where e1: "w3 = w2\<lparr>trace := trace w2 @ evs1\<rparr>" and l1: "list_all is_lookup evs1"
    using get_client_id_events [OF assms(7)] by auto
  obtain evs2 where e2: "w4 = w3\<lparr>trace := trace w3 @ evs2\<rparr>" and l2: "list_all is_lookup evs2"
    using get_airflow_webserver_id_events [OF assms(8)] by auto
  let ?u = "PyStr (''https://'' @ webserver_id @ ''.appspot.com/api/experimental/dags/'' @
                   fmt_env (DAG_NAME env) @ ''/dag_runs'')"
  let ?k = "[(''timeout'', PyInt (IAP_TIMEOUT env)), (''json'', PyDict [(''conf'', PyStr m)])]"
  let ?req = "\<lparr>http_method = ''POST'', url = ?u,
                headers = [(''Authorization'', ''Bearer '' @ token)],
                kwargs = ?k, authorized = False\<rparr>"
  let ?db = "[Db GetEngine None, Db (Count (PyStr m)) None, Db Commit None, Db Close None,
              Db GetEngine None, Db LockTable None, Db (AddCommit (PyStr m)) None,
              Db Close None]"
  have mk: "snd (make_iap_request env ?u client_id ''POST'' ?k w4) =
              w4\<lparr>trace := trace w4 @ [FetchIdToken client_id, Http ?req]\<rparr>"
    using make_iap_request_events [OF assms(9), of ?k ?u "''POST''"] by simp
  have run: "snd (trigger_dag env request_json w) =
               snd (make_iap_request env ?u client_id ''POST'' ?k w4)"
    using first_delivery_reaches_downstream [OF assms(1-4)]
          downstream_after_lookups [OF assms(5) assms(7) assms(8), of "PyStr m"] assms(6)
    by simp
  have tr: "trace (snd (trigger_dag env request_json w)) =
              trace w @ ?db @ evs1 @ evs2 @ [FetchIdToken client_id, Http ?req]"
    unfolding run mk using e1 e2 assms(6) by simp
  have ev: "events_of env request_json w = ?db @ evs1 @ evs2 @ [FetchIdToken client_id, Http ?req]"
    unfolding events_of_def tr by simp
  have p: "posts ?db = []" and t: "token_fetches ?db = []"
    by (simp_all add: posts_def token_fetches_def)
  have p2: "posts [FetchIdToken client_id, Http ?req] = [?req]"
    and t2: "token_fetches [FetchIdToken client_id, Http ?req] = [client_id]"
    by (simp_all add: posts_def token_fetches_def)
  show ?thesis
    unfolding ev posts_append token_fetches_append p t p2 t2
      lookups_posts [OF l1] lookups_posts [OF l2]
      lookups_token_fetches [OF l1] lookups_token_fetches [OF l2]
    by simp
qed

theorem matching_delivery_posts_once_witness:
  "posts (events_of example_env (example_request sales_attributes) empty_world) =
     [\<lparr>http_method = ''POST'',
       url = PyStr ''https://bc5c0e43e23571a62-tp.appspot.com/api/experimental/dags/sales_dag/dag_runs'',
       headers = [(''Authorization'', ''Bearer eyJhbGciOi'')],
       kwargs = [(''timeout'', PyInt 90), (''json'', PyDict [(''conf'', PyStr ''abc123'')])],
       authorized = False\<rparr>]
   \<and> token_fetches (events_of example_env (example_request sales_attributes) empty_world) =
       [''573384987581.apps.googleusercontent.com'']"
proof -
  let ?w2 = "empty_world\<lparr>rows := rows empty_world @ [''abc123''],
                trace := trace empty_world @
                  [Db GetEngine None, Db (Count (PyStr ''abc123'')) None, Db Commit None,
                   Db Close None, Db GetEngine None, Db LockTable None,
                   Db (AddCommit (PyStr ''abc123'')) None, Db Close None]\<rparr>"
  have c: "get_client_id example_env ?w2 =
             (Inr ''573384987581.apps.googleusercontent.com'', snd (get_client_id example_env ?w2))"
    by (simp add: get_client_id_def get_airflow_uri_def http_call_def header_lookup_def
          example_env_def empty_world_def composer_response_def redirect_response_def
          lower_def lower_char_def Let_def)
  have i: "get_airflow_webserver_id example_env (snd (get_client_id example_env ?w2)) =
             (Inr ''bc5c0e43e23571a62-tp'',
              snd (get_airflow_webserver_id example_env (snd (get_client_id example_env ?w2))))"
    by (simp add: get_airflow_webserver_id_def get_client_id_def get_airflow_uri_def http_call_def
          header_lookup_def example_env_def empty_world_def composer_response_def
          redirect_response_def lower_def lower_char_def Let_def
          py_slice_def str_find_def str_rfind_def)
  show ?thesis
    using matching_delivery_posts_once [of example_env "example_request sales_attributes"
            "''abc123''" "PyDict sales_attributes" empty_world ?w2 _ _ _ _ "''eyJhbGciOi''",
            OF _ _ _ _ _ refl c i]
    by (simp add: example_env_def empty_world_def example_request_def sales_attributes_def
          enabled_def lower_def lower_char_def db_healthy_def trigger_dag_parse_def
          attributes_match_def fmt_env_def)
qed

section \<open>The claim under the lock\<close>

lemma lookups_not_db: "list_all is_lookup evs \<Longrightarrow> list_all (\<lambda>ev. \<not> is_db ev) evs"
  by (induction evs) (auto elim: is_lookup.elims)

lemma make_iap_request_not_db:
  "make_iap_request env u c m k w = (r, w') \<Longrightarrow>
     \<exists>evs. w' = w\<lparr>trace := trace w @ evs\<rparr> \<and> list_all (\<lambda>ev. \<not> is_db ev) evs"
  by (auto simp: make_iap_request_def http_call_def Let_def split: sum.splits if_splits)

lemma trigger_dag_downstream_not_db:
  "trigger_dag_downstream env v a w = (r, w') \<Longrightarrow>
     \<exists>evs. trace w' = trace w @ evs \<and> list_all (\<lambda>ev. \<not> is_db ev) evs"
  by (auto simp: trigger_dag_downstream_def Let_def split: prod.splits sum.splits bool.splits
           dest!: get_client_id_events get_airflow_webserver_id_events make_iap_request_not_db
                  lookups_not_db)

text \<open>
  Lines 283 to 307 never look at the table: once the lock is acquired the row is
  inserted, whether or not the table already holds the identifier.
\<close>

lemma claim_inserts_unconditionally:
  assumes db: "db_healthy env"
  shows "trigger_dag_claim env (PyStr m) w =
           (Inr None,
            w\<lparr>rows := rows w @ [m],
               trace := trace w @ [Db GetEngine None, Db LockTable None,
                                   Db (AddCommit (PyStr m)) None, Db Close None]\<rparr>)"
proof -
  have f: "\<And>tr op. db_fault env tr op = None"
    using db by (simp add: db_healthy_def)
  show ?thesis
    by (simp add: trigger_dag_claim_def db_call_def Let_def f stored_text_def)
qed

text \<open>
  C3. On a first delivery the only existence check is the count query of
  \<^verbatim>\<open>message_id_exists\<close>, run in a session that is committed and closed before the
  lock is requested; between the acquired lock and the insert there is no count
  query. The claim step, entered with the lock free and a table that already holds
  the identifier (a concurrent invocation having committed it after the check of
  line 278), acquires the lock and inserts a second row without checking.
\<close>

theorem claim_does_not_check_under_lock:
  "events_of example_env (example_request []) empty_world =
     [Db GetEngine None, Db (Count (PyStr ''abc123'')) None, Db Commit None, Db Close None,
      Db GetEngine None, Db LockTable None, Db (AddCommit (PyStr ''abc123'')) None,
      Db Close None]
   \<and> trigger_dag_claim example_env (PyStr ''abc123'') \<lparr>rows = [''abc123''], trace = []\<rparr> =
       (Inr None,
        \<lparr>rows = [''abc123'', ''abc123''],
         trace = [Db GetEngine None, Db LockTable None, Db (AddCommit (PyStr ''abc123'')) None,
                  Db Close None]\<rparr>)"
proof -
  have "db_healthy example_env"
    by (simp add: db_healthy_def example_env_def)
  then have "trigger_dag_claim example_env (PyStr ''abc123'') \<lparr>rows = [''abc123''], trace = []\<rparr> =
       (Inr None,
        \<lparr>rows = [''abc123'', ''abc123''],
         trace = [Db GetEngine None, Db LockTable None, Db (AddCommit (PyStr ''abc123'')) None,
                  Db Close None]\<rparr>)"
    by (simp add: claim_inserts_unconditionally)
  moreover have "events_of example_env (example_request []) empty_world =
     [Db GetEngine None, Db (Count (PyStr ''abc123'')) None, Db Commit None, Db Close None,
      Db GetEngine None, Db LockTable None, Db (AddCommit (PyStr ''abc123'')) None,
      Db Close None]"
    unfolding events_of_def example_first_delivery
    by (simp add: empty_world_def)
  ultimately show ?thesis by simp
qed

section \<open>Interleaved invocations\<close>

text \<open>
  The process model agrees with \<^verbatim>\<open>trigger_dag\<close> when an invocation runs alone.
\<close>

lemma solo_schedule_agrees:
  assumes en: "enabled env" and db: "db_healthy env"
      and parse: "trigger_dag_parse request_json = Inr (Some (PyStr m, a))"
  shows "schedule [0, 0, 0] \<lparr>tbl = rows w, holder = None, procs = [(m, Checking)]\<rparr> =
           \<lparr>tbl = rows (snd (trigger_dag env request_json w)), holder = None,
            procs = [(m, if m \<in> set (rows w) then AlreadyClaimed else Claimed)]\<rparr>"
proof (cases "m \<in> set (rows w)")
  case True
  have l: "db_healthy_but_lock env"
    using db by (simp add: db_healthy_def db_healthy_but_lock_def)
  from True have "0 < count_rows (PyStr m) (rows w)" by (simp add: count_rows_str)
  with True show ?thesis
    by (simp add: step_def redelivery_result [OF en l parse])
next
  case False
  then have "count_rows (PyStr m) (rows w) = 0" by (simp add: count_rows_zero_str)
  with False show ?thesis
    by (simp add: step_def first_delivery_reaches_downstream [OF en db parse False]
          rows_trigger_dag_downstream)
qed

text \<open>
  C2. Two invocations carrying the same message identifier, interleaved so that
  both existence checks run before either lock is requested: each then acquires the
  lock in turn (the first has committed and released it), each inserts its row,
  and both go on as claimants. The table ends with two rows for one identifier.
\<close>

theorem concurrent_claims_both_insert:
  "schedule [0, 1, 0, 0, 1, 1]
     \<lparr>tbl = [], holder = None, procs = [(''abc123'', Checking), (''abc123'', Checking)]\<rparr> =
   \<lparr>tbl = [''abc123'', ''abc123''], holder = None,
    procs = [(''abc123'', Claimed), (''abc123'', Claimed)]\<rparr>"
  by (simp add: step_def count_rows_def)

end
